theory Spec2Isabelle
  imports Complex_Main "HOL-Library.Log_Nat"
begin

section \<open>Python values and errors\<close>

text \<open>
  The exceptions the modelled functions can raise. Every function that can raise returns
  \<open>py_error + 'a\<close>, with \<open>Inl\<close> for the exception. Calls to \<^verbatim>\<open>warnings.warn\<close> and
  \<^verbatim>\<open>print\<close> do not change control flow and are left out.
\<close>

datatype py_error =
  AssertionError | IndexError | ValueError | ZeroDivisionError | NameError | FileExistsError

text \<open>
  A numpy array of rank 1, 2 or 3, as nested lists in row-major order. An audio buffer of
  shape (C, N) is \<open>Arr2 rows\<close> with C rows (channels) of N samples each.
\<close>

datatype 'a ndarray = Arr1 "'a list" | Arr2 "'a list list" | Arr3 "'a list list list"

fun ndim :: "'a ndarray \<Rightarrow> nat" where
  "ndim (Arr1 _) = 1"
| "ndim (Arr2 _) = 2"
| "ndim (Arr3 _) = 3"

text \<open>The rows of a rank-2 array (only used after the rank has been checked).\<close>

fun rows_of :: "'a ndarray \<Rightarrow> 'a list list" where
  "rows_of (Arr2 rows) = rows"
| "rows_of _ = []"

text \<open>\<^verbatim>\<open>audio.shape[-2]\<close> and \<^verbatim>\<open>audio.shape[-1]\<close> of a rank-2 array with at least one row.\<close>

definition num_channels :: "'a list list \<Rightarrow> nat" where
  "num_channels rows = length rows"

definition num_frames :: "'a list list \<Rightarrow> nat" where
  "num_frames rows = (case rows of [] \<Rightarrow> 0 | r # _ \<Rightarrow> length r)"

text \<open>A rank-2 array of shape (C, N): C rows, each of N samples.\<close>

definition has_shape :: "'a list list \<Rightarrow> nat \<Rightarrow> nat \<Rightarrow> bool" where
  "has_shape rows C N = (length rows = C \<and> list_all (\<lambda>r. length r = N) rows)"

section \<open>numpy numbers\<close>

text \<open>
  A numpy \<^verbatim>\<open>int64\<close> is an integer from \<open>-2^63\<close> up to \<open>2^63 - 1\<close>; its arithmetic
  keeps the low 64 bits of the exact result, read as a signed number. \<^verbatim>\<open>abs\<close> of an
  \<^verbatim>\<open>int64\<close> is again an \<^verbatim>\<open>int64\<close>, so \<open>abs (-2^63)\<close> is \<open>-2^63\<close>.
\<close>

definition wrap_int64 :: "int \<Rightarrow> int" where
  "wrap_int64 x = (x + 2 ^ 63) mod 2 ^ 64 - 2 ^ 63"

definition abs_int64 :: "int \<Rightarrow> int" where
  "abs_int64 x = wrap_int64 \<bar>x\<bar>"

text \<open>
  A float64 is the rational number it stands for (infinities, NaN and the sign of zero are
  left out). \<open>round_binary64\<close> is the rounding every float64 operation applies to its
  exact result: to the nearest number with a 53-bit significand, ties to the even
  significand. \<open>ilog2 a\<close> is the exponent \<open>e\<close> with \<open>2^e \<le> a < 2^(e+1)\<close> for
  \<open>a > 0\<close>. The exponent range of the format is not modelled: the values used here are
  far from overflow and from the subnormal numbers.
\<close>

definition ilog2 :: "rat \<Rightarrow> int" where
  "ilog2 a = (if 1 \<le> a then bitlen \<lfloor>a\<rfloor> - 1 else - bitlen (\<lceil>1 / a\<rceil> - 1))"

definition pow2 :: "int \<Rightarrow> rat" where
  "pow2 e = (if 0 \<le> e then 2 ^ nat e else 1 / 2 ^ nat (- e))"

definition round_half_even :: "rat \<Rightarrow> int" where
  "round_half_even r =
     (let f = \<lfloor>r\<rfloor>; d = r - of_int f in
      if d < 1 / 2 then f else if 1 / 2 < d then f + 1 else if even f then f else f + 1)"

definition round_binary64 :: "rat \<Rightarrow> rat" where
  "round_binary64 x =
     (if x = 0 then 0
      else (let q = pow2 (ilog2 \<bar>x\<bar> - 52) in of_int (round_half_even (x / q)) * q))"

text \<open>A Python number handed to numpy: an \<^verbatim>\<open>int\<close>, or a \<^verbatim>\<open>float\<close> by its value.\<close>

datatype py_number = PyInt int | PyFloat rat

section \<open>core.py: checking\<close>

text \<open>
  \<^verbatim>\<open>_check_audio_types\<close>: the two assertions (an ndarray, of rank 2); the two warnings
  do not raise. Python's leading underscore is dropped from the names.
\<close>

definition check_audio_types :: "'a ndarray \<Rightarrow> py_error + unit" where
  "check_audio_types audio = (if ndim audio = 2 then Inr () else Inl AssertionError)"

definition is_mono :: "'a ndarray \<Rightarrow> py_error + bool" where
  "is_mono audio =
     (case check_audio_types audio of
        Inl e \<Rightarrow> Inl e
      | Inr _ \<Rightarrow> Inr (num_channels (rows_of audio) = 1))"

text \<open>\<^verbatim>\<open>librosa_input_wrap\<close>: a mono buffer becomes its only row; any other is returned as it is.\<close>

definition librosa_input_wrap :: "'a ndarray \<Rightarrow> py_error + 'a ndarray" where
  "librosa_input_wrap audio =
     (case check_audio_types audio of
        Inl e \<Rightarrow> Inl e
      | Inr _ \<Rightarrow>
          (case is_mono audio of
             Inl e \<Rightarrow> Inl e
           | Inr m \<Rightarrow> Inr (if m then Arr1 (hd (rows_of audio)) else audio)))"

section \<open>core.py: the coalescing sweep\<close>

text \<open>
  The variables of the loop of \<^verbatim>\<open>_coalesce_timestamps\<close>. The timestamp matrix is a list of
  (start, end) rows.
\<close>

record 't sweep =
  last_start_time :: 't
  last_end_time :: 't
  coalesced_timestamps :: "('t \<times> 't) list"

text \<open>
  One pass of the loop body at index \<open>i\<close>: \<^verbatim>\<open>timestamps[i]\<close> raises IndexError out of
  range; the else branch appends \<^verbatim>\<open>[last_start_time, end_time]\<close>.
\<close>

definition sweep_body ::
  "('t \<Rightarrow> 't \<Rightarrow> bool) \<Rightarrow> ('t \<times> 't) list \<Rightarrow> nat \<Rightarrow> 't sweep \<Rightarrow> py_error + 't sweep" where
  "sweep_body condition timestamps i s =
     (if i < length timestamps then
        (let start_time = fst (timestamps ! i); end_time = snd (timestamps ! i) in
         if condition (last_end_time s) start_time
         then Inr (s\<lparr>last_end_time := end_time\<rparr>)
         else Inr \<lparr>last_start_time = start_time, last_end_time = end_time,
                   coalesced_timestamps =
                     coalesced_timestamps s @ [(last_start_time s, end_time)]\<rparr>)
      else Inl IndexError)"

text \<open>The \<^verbatim>\<open>for\<close> loop over a list of indices; an exception leaves the loop.\<close>

fun sweep_loop ::
  "('t \<Rightarrow> 't \<Rightarrow> bool) \<Rightarrow> ('t \<times> 't) list \<Rightarrow> nat list \<Rightarrow> 't sweep \<Rightarrow> py_error + 't sweep" where
  "sweep_loop condition timestamps [] s = Inr s"
| "sweep_loop condition timestamps (i # is) s =
     (case sweep_body condition timestamps i s of
        Inl e \<Rightarrow> Inl e
      | Inr s' \<Rightarrow> sweep_loop condition timestamps is s')"

text \<open>
  \<^verbatim>\<open>_coalesce_timestamps\<close>: \<^verbatim>\<open>timestamps[0]\<close> raises IndexError on an empty matrix; the
  loop runs over \<^verbatim>\<open>range(1, len(timestamps)+1)\<close>; the list built by the loop is returned.
\<close>

definition coalesce_timestamps ::
  "('t \<times> 't) list \<Rightarrow> ('t \<Rightarrow> 't \<Rightarrow> bool) \<Rightarrow> py_error + ('t \<times> 't) list" where
  "coalesce_timestamps timestamps condition =
     (case timestamps of
        [] \<Rightarrow> Inl IndexError
      | t0 # _ \<Rightarrow>
          (case sweep_loop condition timestamps [1 ..< length timestamps + 1]
                  \<lparr>last_start_time = fst t0, last_end_time = snd t0, coalesced_timestamps = []\<rparr> of
             Inl e \<Rightarrow> Inl e
           | Inr s \<Rightarrow> Inr (coalesced_timestamps s)))"

section \<open>core.py: silence splitting\<close>

text \<open>
  The predicate \<^verbatim>\<open>lambda e, s: abs((s-e)*sr) < min_silence_duration\<close> that
  \<^verbatim>\<open>split_on_silence\<close> hands to the sweep. The interval ends \<open>e\<close> and \<open>s\<close> are
  \<^verbatim>\<open>int64\<close> sample indices read from the detector's matrix and \<open>sr\<close> is a Python
  \<^verbatim>\<open>int\<close> within the \<^verbatim>\<open>int64\<close> range, so the difference, the product and
  \<^verbatim>\<open>abs\<close> are \<^verbatim>\<open>int64\<close> operations that wrap. \<open>min_silence_duration\<close> is a Python
  number: against an \<^verbatim>\<open>int\<close> the comparison is exact, against a \<^verbatim>\<open>float\<close> the
  \<^verbatim>\<open>int64\<close> is first converted to float64.
\<close>

definition silence_condition :: "int \<Rightarrow> py_number \<Rightarrow> int \<Rightarrow> int \<Rightarrow> bool" where
  "silence_condition sr min_silence_duration e s =
     (let x = abs_int64 (wrap_int64 (wrap_int64 (s - e) * sr)) in
      case min_silence_duration of
        PyInt k \<Rightarrow> x < k
      | PyFloat f \<Rightarrow> round_binary64 (of_int x) < f)"

text \<open>
  \<^verbatim>\<open>split_on_silence\<close>. The detector \<^verbatim>\<open>librosa.effects.split\<close> belongs to another
  library and is a parameter: it maps the wrapped audio and \<open>top_db\<close> to the matrix of
  non-silent intervals.
\<close>

definition split_on_silence ::
  "('a ndarray \<Rightarrow> int \<Rightarrow> (int \<times> int) list) \<Rightarrow> 'a ndarray \<Rightarrow> int \<Rightarrow> int \<Rightarrow> py_number
     \<Rightarrow> py_error + (int \<times> int) list" where
  "split_on_silence librosa_split audio sr top_db min_silence_duration =
     (case librosa_input_wrap audio of
        Inl e \<Rightarrow> Inl e
      | Inr audio' \<Rightarrow>
          coalesce_timestamps (librosa_split audio' top_db)
            (silence_condition sr min_silence_duration))"

section \<open>core.py: zero padding and windowing\<close>

text \<open>
  \<^verbatim>\<open>zero_pad\<close>. Lengths are natural numbers; \<^verbatim>\<open>num_frames % required_len\<close> raises
  ZeroDivisionError when \<open>required_len\<close> is 0. \<^verbatim>\<open>np.pad\<close> with
  \<^verbatim>\<open>((0, 0), (before, after))\<close> adds no rows, and \<open>before\<close> and \<open>after\<close> constant
  samples at the two ends of every row. The source's variable \<^verbatim>\<open>before\<close> is written
  \<open>before0\<close>.
\<close>

definition zero_pad :: "'a::zero ndarray \<Rightarrow> nat \<Rightarrow> py_error + 'a ndarray" where
  "zero_pad audio required_len =
     (case check_audio_types audio of
        Inl e \<Rightarrow> Inl e
      | Inr _ \<Rightarrow>
          if required_len = 0 then Inl ZeroDivisionError
          else
            (let num_frames = num_frames (rows_of audio);
                 before0 = 0;
                 after = required_len - num_frames mod required_len
             in if after = required_len then Inr audio
                else Inr (Arr2 (map (\<lambda>r. replicate before0 0 @ r @ replicate after 0)
                                  (rows_of audio)))))"

text \<open>\<^verbatim>\<open>int(np.ceil(a / b))\<close> for natural numbers and \<open>b > 0\<close>.\<close>

definition ceil_div :: "nat \<Rightarrow> nat \<Rightarrow> nat" where
  "ceil_div a b = (a + b - 1) div b"

text \<open>\<^verbatim>\<open>np.arange(0, stop, step)\<close> for \<open>step > 0\<close>: the multiples of \<open>step\<close> below \<open>stop\<close>.\<close>

definition arange :: "nat \<Rightarrow> nat \<Rightarrow> nat list" where
  "arange stop step = map (\<lambda>k. k * step) [0 ..< ceil_div stop step]"

text \<open>
  The body of the loop of \<^verbatim>\<open>window\<close> for one start index. \<^verbatim>\<open>len(audio)\<close> is the
  size of the first axis, the number of rows; the slice \<^verbatim>\<open>audio[:, start_idx:end_idx]\<close>
  keeps, in every row, the samples from \<open>start_idx\<close> up to \<open>end_idx\<close> that exist.
\<close>

definition window_at :: "'a::zero list list \<Rightarrow> nat \<Rightarrow> nat \<Rightarrow> py_error + 'a ndarray" where
  "window_at rows window_len start_idx =
     (let end_idx = start_idx + window_len;
          end_idx' = min end_idx (length rows);
          win = Arr2 (map (\<lambda>r. drop start_idx (take end_idx' r)) rows)
      in zero_pad win window_len)"

fun window_loop ::
  "'a::zero list list \<Rightarrow> nat \<Rightarrow> nat list \<Rightarrow> 'a ndarray list \<Rightarrow> py_error + 'a ndarray list" where
  "window_loop rows window_len [] windows = Inr windows"
| "window_loop rows window_len (start_idx # rest) windows =
     (case window_at rows window_len start_idx of
        Inl e \<Rightarrow> Inl e
      | Inr win \<Rightarrow> window_loop rows window_len rest (windows @ [win]))"

text \<open>
  \<^verbatim>\<open>np.stack\<close> of rank-2 arrays: ValueError on an empty list and when two arrays differ
  in shape.
\<close>

definition shape2 :: "'a ndarray \<Rightarrow> nat \<times> nat" where
  "shape2 a = (num_channels (rows_of a), num_frames (rows_of a))"

definition np_stack :: "'a ndarray list \<Rightarrow> py_error + 'a ndarray" where
  "np_stack windows =
     (case windows of
        [] \<Rightarrow> Inl ValueError
      | w # ws \<Rightarrow>
          if list_all (\<lambda>v. shape2 v = shape2 w) ws then Inr (Arr3 (map rows_of windows))
          else Inl ValueError)"

text \<open>
  \<^verbatim>\<open>window\<close>. The division by \<open>window_len\<close> and \<^verbatim>\<open>np.arange\<close> with step
  \<open>hop_len\<close> raise ZeroDivisionError at 0.
\<close>

definition window :: "'a::zero ndarray \<Rightarrow> nat \<Rightarrow> nat \<Rightarrow> py_error + 'a ndarray" where
  "window audio window_len hop_len =
     (case check_audio_types audio of
        Inl e \<Rightarrow> Inl e
      | Inr _ \<Rightarrow>
          if window_len = 0 then Inl ZeroDivisionError
          else
            (let n_chunks = ceil_div (length (rows_of audio)) window_len in
             if hop_len = 0 then Inl ZeroDivisionError
             else
               (let start_idxs = arange (n_chunks * window_len) hop_len in
                case window_loop (rows_of audio) window_len start_idxs [] of
                  Inl e \<Rightarrow> Inl e
                | Inr windows \<Rightarrow> np_stack windows)))"

section \<open>core.py: downmix\<close>




section \<open>io.py: writing a file\<close>

text \<open>
  \<^verbatim>\<open>Path(path).suffix\<close> of pathlib: the name is the last component of the path that is
  neither empty nor \<^verbatim>\<open>.\<close>; the suffix is the part of the name from its last dot on,
  when that dot is neither the first nor the last character of the name, else empty.
\<close>

fun rfind :: "'a \<Rightarrow> 'a list \<Rightarrow> nat option" where
  "rfind c [] = None"
| "rfind c (x # xs) =
     (case rfind c xs of
        Some i \<Rightarrow> Some (Suc i)
      | None \<Rightarrow> if x = c then Some 0 else None)"

fun split_on :: "'a \<Rightarrow> 'a list \<Rightarrow> 'a list list" where
  "split_on c [] = [[]]"
| "split_on c (x # xs) =
     (if x = c then [] # split_on c xs
      else (case split_on c xs of [] \<Rightarrow> [[x]] | p # ps \<Rightarrow> (x # p) # ps))"

definition path_name :: "string \<Rightarrow> string" where
  "path_name path =
     (case filter (\<lambda>q. q \<noteq> [] \<and> q \<noteq> ''.'') (split_on CHR ''/'' path) of
        [] \<Rightarrow> []
      | q # qs \<Rightarrow> last (q # qs))"

definition suffix :: "string \<Rightarrow> string" where
  "suffix path =
     (let name = path_name path in
      case rfind CHR ''.'' name of
        None \<Rightarrow> []
      | Some i \<Rightarrow> if 0 < i \<and> i + 1 < length name then drop i name else [])"

definition add_file_format_to_filename :: "string \<Rightarrow> string \<Rightarrow> string" where
  "add_file_format_to_filename path file_format =
     (if suffix path \<noteq> file_format then path @ file_format else path)"

definition ok_audio_formats :: "string list" where
  "ok_audio_formats = [''flac'', ''ogg'', ''wav'']"

text \<open>
  The names that io.py binds at module level (its imports and its three functions). A
  function body that reads any other global name raises NameError.
\<close>

definition io_globals :: "string list" where
  "io_globals = [''Path'', ''librosa'', ''np'', ''sf'', ''load_audio_file'',
     ''_add_file_format_to_filename'', ''write_audio_file'']"

definition lookup_global :: "string \<Rightarrow> py_error + unit" where
  "lookup_global name = (if name \<in> set io_globals then Inr () else Inl NameError)"

text \<open>\<^verbatim>\<open>np.reshape(audio, (n, m))\<close>: the samples in row-major order, cut into \<open>n\<close> rows of \<open>m\<close>.\<close>

definition reshape2 :: "'a list list \<Rightarrow> nat \<Rightarrow> nat \<Rightarrow> 'a list list" where
  "reshape2 rows n m = map (\<lambda>k. take m (drop (k * m) (concat rows))) [0 ..< n]"

text \<open>
  \<^verbatim>\<open>write_audio_file\<close>. The file system is a map from path strings to what
  \<^verbatim>\<open>sf.write\<close> stored there (the sample matrix and the sample rate); the function
  returns the file system after the write.
\<close>

type_synonym 'a file_system = "string \<rightharpoonup> 'a list list \<times> int"

definition write_audio_file ::
  "'a file_system \<Rightarrow> 'a ndarray \<Rightarrow> string \<Rightarrow> int \<Rightarrow> string \<Rightarrow> bool \<Rightarrow> py_error + 'a file_system"
  where
  "write_audio_file fs audio path_to_audio sample_rate audio_format exist_ok =
     (if audio_format \<notin> set ok_audio_formats then Inl AssertionError
      else
        (let path_to_audio' = add_file_format_to_filename path_to_audio audio_format in
         if fs path_to_audio' \<noteq> None \<and> \<not> exist_ok then Inl FileExistsError
         else
           (case lookup_global ''_check_audio_types'' of
              Inl e \<Rightarrow> Inl e
            | Inr _ \<Rightarrow>
                (case check_audio_types audio of
                   Inl e \<Rightarrow> Inl e
                 | Inr _ \<Rightarrow>
                     if ndim audio \<noteq> 2 then Inl AssertionError
                     else
                       (let audio' = reshape2 (rows_of audio) (num_frames (rows_of audio))
                                       (num_channels (rows_of audio))
                        in Inr (fs(path_to_audio' \<mapsto> (audio', sample_rate))))))))"

section \<open>Properties of the coalescing sweep\<close>

lemma sweep_body_cases:
  "sweep_body condition timestamps i s = Inl IndexError \<or>
   (\<exists>s'. sweep_body condition timestamps i s = Inr s')"
  by (simp add: sweep_body_def Let_def)

lemma sweep_loop_past_end:
  "sweep_loop condition timestamps (is @ [length timestamps]) s = Inl IndexError"
proof (induction "is" arbitrary: s)
  case Nil
  show ?case by (simp add: sweep_body_def)
next
  case (Cons i "is")
  from sweep_body_cases [of condition timestamps i s] show ?case
  proof
    assume "sweep_body condition timestamps i s = Inl IndexError"
    then show ?thesis by simp
  next
    assume "\<exists>s'. sweep_body condition timestamps i s = Inr s'"
    then obtain s' where "sweep_body condition timestamps i s = Inr s'" ..
    then show ?thesis by (simp add: Cons.IH)
  qed
qed

lemma range_from_one: "0 < n \<Longrightarrow> [1 ..< n + 1] = [1 ..< n] @ [n]"
  by simp

lemma coalesce_timestamps_raises:
  "coalesce_timestamps timestamps condition = Inl IndexError"
proof (cases timestamps)
  case Nil
  then show ?thesis by (simp add: coalesce_timestamps_def)
next
  case (Cons t0 rest)
  then have "[1 ..< length timestamps + 1] = [1 ..< length timestamps] @ [length timestamps]"
    by simp
  then have "sweep_loop condition timestamps [1 ..< length timestamps + 1] s = Inl IndexError"
    for s
    using sweep_loop_past_end [of condition timestamps "[1 ..< length timestamps]" s] by simp
  with Cons show ?thesis by (simp add: coalesce_timestamps_def)
qed

text \<open>
  C1. The claim: when the predicate is false on (current end, next start), the sweep emits
  the accumulated interval (run's first start, run's last end), not an interval ending at
  the next interval's end. The loop body does the opposite: for an index \<open>i\<close> in range
  on which the predicate is false, the interval appended to the output is
  (\<open>last_start_time\<close>, end of interval \<open>i\<close>); the accumulated \<open>last_end_time\<close> is
  dropped.
\<close>

theorem sweep_emits_next_end:
  assumes "i < length timestamps"
    and "\<not> condition (last_end_time s) (fst (timestamps ! i))"
  shows "sweep_body condition timestamps i s =
    Inr \<lparr>last_start_time = fst (timestamps ! i), last_end_time = snd (timestamps ! i),
         coalesced_timestamps =
           coalesced_timestamps s @ [(last_start_time s, snd (timestamps ! i))]\<rparr>"
  using assms by (simp add: sweep_body_def Let_def)

text \<open>
  On the intervals (0, 1), (5, 6) with a predicate that never merges, the first pass of the
  loop emits (0, 6) where the run is (0, 1).
\<close>

theorem sweep_emits_next_end_witness:
  "(1::nat) < length [(0::int, 1::int), (5, 6)] \<and>
   \<not> (\<lambda>e s. False)
        (last_end_time
           \<lparr>last_start_time = 0::int, last_end_time = 1::int, coalesced_timestamps = []\<rparr>)
        (fst ([(0::int, 1::int), (5, 6)] ! 1)) \<and>
   sweep_body (\<lambda>e s. False) [(0::int, 1::int), (5, 6)] 1
     \<lparr>last_start_time = 0, last_end_time = 1, coalesced_timestamps = []\<rparr> =
   Inr \<lparr>last_start_time = 5, last_end_time = 6, coalesced_timestamps = [(0, 6)]\<rparr>"
  using sweep_emits_next_end [of 1 "[(0::int, 1::int), (5, 6)]" "\<lambda>e s. False"
      "\<lparr>last_start_time = 0, last_end_time = 1, coalesced_timestamps = []\<rparr>"]
  by simp

text \<open>
  C2. The claim: on a non-empty input every element access of the sweep is in bounds and
  the final carried interval is output once. On every non-empty input the loop's last
  index is the length of the matrix, the read at that index raises IndexError, and the
  function raises it: nothing is returned.
\<close>

theorem coalesce_nonempty_reads_past_end:
  "sweep_body condition (t # rest) (length (t # rest)) s = Inl IndexError \<and>
   coalesce_timestamps (t # rest) condition = Inl IndexError"
  by (simp add: coalesce_timestamps_raises sweep_body_def)

text \<open>
  C3. The claim: a single interval is returned unchanged, whatever the predicate. For
  every predicate, the function raises IndexError on a one-interval input.
\<close>

theorem coalesce_single_interval_raises:
  "coalesce_timestamps [t] condition = Inl IndexError"
  by (rule coalesce_timestamps_raises)

section \<open>Properties of silence splitting\<close>

lemma wrap_int64_id: "- (2 ^ 63) \<le> x \<Longrightarrow> x < 2 ^ 63 \<Longrightarrow> wrap_int64 x = x"
  by (simp add: wrap_int64_def)

text \<open>
  Where the product does not overflow and the threshold is an \<^verbatim>\<open>int\<close>, the predicate
  compares the gap in samples times the sample rate with the threshold.
\<close>

lemma silence_condition_no_overflow:
  assumes "\<bar>s - e\<bar> < 2 ^ 63" and "\<bar>(s - e) * sr\<bar> < 2 ^ 63"
  shows "silence_condition sr (PyInt k) e s \<longleftrightarrow> \<bar>(s - e) * sr\<bar> < k"
proof -
  have a: "wrap_int64 (s - e) = s - e"
    using assms(1) by (intro wrap_int64_id) simp_all
  have b: "wrap_int64 ((s - e) * sr) = (s - e) * sr"
    using assms(2) by (intro wrap_int64_id) simp_all
  have c: "wrap_int64 \<bar>(s - e) * sr\<bar> = \<bar>(s - e) * sr\<bar>"
    using assms(2) by (intro wrap_int64_id) simp_all
  show ?thesis
    by (simp add: silence_condition_def abs_int64_def a b c)
qed

text \<open>A product that overflows wraps: \<open>2^62 * 4\<close> is 0 in \<^verbatim>\<open>int64\<close>.\<close>

lemma silence_condition_wraps: "silence_condition 4 (PyFloat (1 / 2)) 0 (2 ^ 62)"
  by (simp add: silence_condition_def abs_int64_def wrap_int64_def round_binary64_def)

lemma split_on_silence_raises:
  "split_on_silence librosa_split (Arr2 rows) sr top_db d = Inl IndexError"
  by (simp add: split_on_silence_def librosa_input_wrap_def check_audio_types_def is_mono_def
      coalesce_timestamps_raises)

text \<open>
  C7. The claim: two adjacent intervals merge exactly when the gap in samples is below
  \<open>min_silence_duration * sr\<close>. The detector returns multiples of its hop length 512. At
  48000 samples per second, for a previous end 49152 and a next start 52224, the gap of
  3072 samples is below one second (48000 samples) and below half a second (24000
  samples), and the predicate of the code is false on it for the threshold 1, an
  \<^verbatim>\<open>int\<close>, and for the threshold 0.5, a \<^verbatim>\<open>float\<close>: the intervals are not merged.
\<close>

theorem silence_condition_short_gap_not_merged:
  "\<not> silence_condition 48000 (PyInt 1) 49152 52224 \<and>
   \<not> silence_condition 48000 (PyFloat (1 / 2)) 49152 52224 \<and>
   (52224::int) - 49152 < 1 * 48000 \<and>
   rat_of_int (52224 - 49152) < 1 / 2 * rat_of_int 48000"
  by code_simp

section \<open>Properties of the input wrapper\<close>

text \<open>
  C9, as amended. For every rank-2 buffer with two or more channels,
  \<^verbatim>\<open>librosa_input_wrap\<close> raises nothing and returns the buffer as it is.
\<close>

theorem librosa_input_wrap_multichannel:
  assumes "2 \<le> length rows"
  shows "librosa_input_wrap (Arr2 rows) = Inr (Arr2 rows)"
  using assms
  by (simp add: librosa_input_wrap_def check_audio_types_def is_mono_def num_channels_def)

theorem librosa_input_wrap_multichannel_witness:
  "2 \<le> length [[1, 2], [3, 4], [5, 6::int]] \<and>
   librosa_input_wrap (Arr2 [[1, 2], [3, 4], [5, 6::int]]) =
     Inr (Arr2 [[1, 2], [3, 4], [5, 6]])"
  using librosa_input_wrap_multichannel [of "[[1, 2], [3, 4], [5, 6::int]]"] by simp

text \<open>
  C9 as stated fails: a stereo buffer of shape (2, 2) is returned, not refused.
\<close>

theorem librosa_input_wrap_stereo_returns:
  "librosa_input_wrap (Arr2 [[1, 2], [3, 4::int]]) = Inr (Arr2 [[1, 2], [3, 4]])"
  by (simp add: librosa_input_wrap_def check_audio_types_def is_mono_def num_channels_def)

section \<open>Properties of zero padding\<close>

lemma ceil_div_one: "0 < a \<Longrightarrow> a \<le> b \<Longrightarrow> ceil_div a b = 1"
  unfolding ceil_div_def by (rule div_nat_eqI) simp_all

lemma ceil_div_mult:
  assumes "0 < L"
  shows "ceil_div N L * L = (if N mod L = 0 then N else N + (L - N mod L))"
proof -
  define q where "q = N div L"
  define r where "r = N mod L"
  have N: "N = L * q + r" by (simp add: q_def r_def)
  have r: "r < L" using assms by (simp add: r_def)
  show ?thesis
  proof (cases "r = 0")
    case True
    have "(N + L - 1) div L = q"
      using assms True N by (intro div_nat_eqI) simp_all
    then show ?thesis using True N by (simp add: ceil_div_def r_def [symmetric])
  next
    case False
    have "(N + L - 1) div L = Suc q"
      using assms False N r by (intro div_nat_eqI) simp_all
    then show ?thesis using False N r by (simp add: ceil_div_def r_def [symmetric])
  qed
qed

lemma has_shape_num_frames: "has_shape rows C N \<Longrightarrow> 0 < C \<Longrightarrow> num_frames rows = N"
  by (cases rows) (simp_all add: has_shape_def num_frames_def)

lemma map_append_neq:
  assumes "rows \<noteq> []" and "0 < k"
  shows "map (\<lambda>r. r @ replicate k z) rows \<noteq> rows"
proof
  assume "map (\<lambda>r. r @ replicate k z) rows = rows"
  then have "hd (map (\<lambda>r. r @ replicate k z) rows) = hd rows" by simp
  with assms(1) have "hd rows @ replicate k z = hd rows" by (simp add: hd_map)
  then have "length (hd rows @ replicate k z) = length (hd rows)" by simp
  with assms(2) show False by simp
qed

text \<open>
  C6, as amended. For every buffer of shape (C, N) with at least one channel and every
  positive L, \<^verbatim>\<open>zero_pad\<close> returns every channel followed by M - N zeros, where
  M = ceil(N / L) * L is the smallest multiple of L that is at least N; the result has
  shape (C, M); and the input is returned unchanged exactly when N is a multiple of L,
  the length 0 included.
\<close>

theorem zero_pad_next_multiple:
  assumes "has_shape rows C N" and "0 < C" and "0 < L"
  shows "zero_pad (Arr2 rows) L =
           Inr (Arr2 (map (\<lambda>r. r @ replicate (ceil_div N L * L - N) 0) rows)) \<and>
         has_shape (map (\<lambda>r. r @ replicate (ceil_div N L * L - N) 0) rows) C
           (ceil_div N L * L) \<and>
         L dvd ceil_div N L * L \<and> N \<le> ceil_div N L * L \<and>
         (\<forall>k. L dvd k \<longrightarrow> N \<le> k \<longrightarrow> ceil_div N L * L \<le> k) \<and>
         (zero_pad (Arr2 rows) L = Inr (Arr2 rows) \<longleftrightarrow> L dvd N)"
proof -
  let ?M = "ceil_div N L * L"
  have nf: "num_frames rows = N" using assms(1,2) by (rule has_shape_num_frames)
  have M: "?M = (if N mod L = 0 then N else N + (L - N mod L))"
    using assms(3) by (rule ceil_div_mult)
  have ne: "rows \<noteq> []" using assms(1,2) by (auto simp: has_shape_def)
  have rlt: "N mod L < L" using assms(3) by simp
  have zp: "zero_pad (Arr2 rows) L = Inr (Arr2 (map (\<lambda>r. r @ replicate (?M - N) 0) rows))"
  proof (cases "N mod L = 0")
    case True
    then show ?thesis using assms(3)
      by (simp add: zero_pad_def check_audio_types_def nf M Let_def)
  next
    case False
    with rlt have "L - N mod L \<noteq> L" by simp
    with False show ?thesis using assms(3)
      by (simp add: zero_pad_def check_audio_types_def nf M Let_def)
  qed
  have sh: "has_shape (map (\<lambda>r. r @ replicate (?M - N) 0) rows) C ?M"
    using assms(1) M rlt by (auto simp: has_shape_def list_all_iff)
  have dv: "L dvd ?M" by simp
  have le: "N \<le> ?M" by (simp add: M)
  have lt: "?M < N + L" using assms(3) rlt by (simp add: M)
  have least: "\<forall>k. L dvd k \<longrightarrow> N \<le> k \<longrightarrow> ?M \<le> k"
  proof (intro allI impI)
    fix k assume k: "L dvd k" "N \<le> k"
    show "?M \<le> k"
    proof (rule ccontr)
      assume "\<not> ?M \<le> k"
      then have "k < ?M" by simp
      moreover from k(1) dv have "L dvd ?M - k" by (rule dvd_diff_nat [rotated])
      ultimately have "L \<le> ?M - k" using assms(3) by (auto dest: dvd_imp_le)
      with lt k(2) assms(3) show False by arith
    qed
  qed
  have unch: "zero_pad (Arr2 rows) L = Inr (Arr2 rows) \<longleftrightarrow> L dvd N"
  proof (cases "N mod L = 0")
    case True
    then show ?thesis using zp by (simp add: M dvd_eq_mod_eq_0)
  next
    case False
    with rlt have "0 < ?M - N" by (simp add: M)
    with ne have "map (\<lambda>r. r @ replicate (?M - N) (0::'a)) rows \<noteq> rows"
      by (rule map_append_neq)
    with False show ?thesis using zp by (simp add: dvd_eq_mod_eq_0)
  qed
  from zp sh dv le least unch show ?thesis by blast
qed

text \<open>A buffer of shape (2, 3) padded to a multiple of 2: one zero after each channel.\<close>

theorem zero_pad_next_multiple_witness:
  "has_shape [[1, 2, 3], [4, 5, 6::int]] 2 3 \<and> (0::nat) < 2 \<and> (0::nat) < 2 \<and>
   zero_pad (Arr2 [[1, 2, 3], [4, 5, 6::int]]) 2 = Inr (Arr2 [[1, 2, 3, 0], [4, 5, 6, 0]]) \<and>
   zero_pad (Arr2 [[1, 2, 3], [4, 5, 6::int]]) 2 \<noteq> Inr (Arr2 [[1, 2, 3], [4, 5, 6]])"
proof -
  have h: "has_shape [[1, 2, 3], [4, 5, 6::int]] 2 3" by (simp add: has_shape_def)
  have c: "ceil_div 3 2 * 2 - 3 = 1" by (simp add: ceil_div_def)
  from zero_pad_next_multiple [OF h, of 2] c show ?thesis
    using h by simp
qed

text \<open>
  C6 as stated fails at length 0: a buffer of shape (1, 0) is returned unchanged for
  L = 48, and its length is not a non-zero multiple of 48.
\<close>

theorem zero_pad_empty_returned_unchanged:
  "zero_pad (Arr2 [[]::int list]) 48 = Inr (Arr2 [[]]) \<and>
   num_frames ([[]]::int list list) = 0"
  by (simp add: zero_pad_def check_audio_types_def num_frames_def)

section \<open>Properties of windowing\<close>

lemma arange_single: "0 < stop \<Longrightarrow> stop \<le> step \<Longrightarrow> arange stop step = [0]"
  by (simp add: arange_def ceil_div_one)

text \<open>
  On a mono buffer with a hop of at least the window length, \<^verbatim>\<open>len(audio)\<close> is 1:
  there is one chunk, one start index, and the slice of the only window ends at index 1.
\<close>

lemma window_mono:
  assumes "0 < window_len" and "window_len \<le> hop_len" and "row \<noteq> []"
  shows "window (Arr2 [row]) window_len hop_len =
           Inr (Arr3 [[take 1 row @ replicate (window_len - 1) 0]])"
proof -
  have n: "ceil_div (Suc 0) window_len = Suc 0"
    using assms ceil_div_one [of 1 window_len] by simp
  have a: "arange window_len hop_len = [0]"
    using assms by (simp add: arange_single)
  have l: "min (length row) (Suc 0) = Suc 0"
    using assms(3) by (cases row) simp_all
  have w: "window_at [row] window_len 0 =
             Inr (Arr2 [take 1 row @ replicate (window_len - 1) 0])"
  proof (cases "window_len = 1")
    case True
    then show ?thesis
      by (simp add: window_at_def zero_pad_def check_audio_types_def num_frames_def l Let_def)
  next
    case False
    with assms(1) have "1 < window_len" by simp
    then show ?thesis
      by (simp add: window_at_def zero_pad_def check_audio_types_def num_frames_def l Let_def)
  qed
  show ?thesis
    using assms(1,2) by (simp add: window_def check_audio_types_def n a w np_stack_def Let_def)
qed

text \<open>
  C4. The claim: every window has shape (C, window_len) and every one of the N samples is
  in some window. For every non-empty mono buffer and every hop of at least the window
  length, the result is a single window that holds the first sample followed by zeros:
  the samples from index 1 on are in no window.
\<close>

theorem window_mono_keeps_first_sample_only:
  assumes "0 < window_len" and "window_len \<le> hop_len" and "row \<noteq> []"
  shows "window (Arr2 [row]) window_len hop_len =
           Inr (Arr3 [[take 1 row @ replicate (window_len - 1) 0]])"
  using assms by (rule window_mono)

theorem window_mono_keeps_first_sample_only_witness:
  "(0::nat) < 2 \<and> (2::nat) \<le> 2 \<and> [1, 2, 3, 4, 5::int] \<noteq> [] \<and>
   window (Arr2 [[1, 2, 3, 4, 5::int]]) 2 2 = Inr (Arr3 [[[1, 0]]])"
  using window_mono_keeps_first_sample_only [of 2 2 "[1, 2, 3, 4, 5::int]"]
  by (simp add: numeral_2_eq_2)

text \<open>
  C5. The claim: a buffer of shape (1, 100) with window_len = hop_len = 48 gives three
  windows, at offsets 0, 48 and 96. With the samples 1, 2, ..., 100 the result is one
  window: the sample 1 followed by 47 zeros.
\<close>

theorem window_100_by_48_single_window:
  "window (Arr2 [map int [1 ..< 101]]) 48 48 = Inr (Arr3 [[1 # replicate 47 0]])"
  using window_mono [of 48 48 "map int [1 ..< 101]"]
  by (simp add: upt_conv_Cons)

section \<open>Properties of downmix\<close>






section \<open>Properties of writing a file\<close>

lemma rfind_Some: "rfind c xs = Some i \<Longrightarrow> i < length xs \<and> xs ! i = c"
  by (induction xs arbitrary: i) (auto split: option.splits if_splits)

lemma suffix_dot: "suffix path = [] \<or> hd (suffix path) = CHR ''.''"
  by (auto simp: suffix_def Let_def hd_drop_conv_nth dest: rfind_Some split: option.splits)

text \<open>For an accepted format the suffix test never matches: the format is appended.\<close>

lemma add_file_format_appends:
  assumes "file_format \<in> set ok_audio_formats"
  shows "add_file_format_to_filename path file_format = path @ file_format"
proof -
  from assms have "file_format \<noteq> [] \<and> hd file_format \<noteq> CHR ''.''"
    by (auto simp: ok_audio_formats_def)
  with suffix_dot [of path] have "suffix path \<noteq> file_format" by auto
  then show ?thesis by (simp add: add_file_format_to_filename_def)
qed

text \<open>No call of \<^verbatim>\<open>write_audio_file\<close> reaches the write.\<close>

lemma write_audio_file_never_writes:
  "\<exists>e. write_audio_file fs audio path sr fmt ok = Inl e"
  by (simp add: write_audio_file_def lookup_global_def io_globals_def Let_def)

text \<open>
  C10. The claim: \<^verbatim>\<open>write_audio_file\<close> writes to the given path with the bare format
  appended, so \<^verbatim>\<open>out.flac\<close> is written as \<^verbatim>\<open>out.flacflac\<close>. The target path is
  computed that way, but on an empty file system the call for \<^verbatim>\<open>out.flac\<close> raises
  NameError at \<^verbatim>\<open>_check_audio_types\<close>, a name io.py never binds, before anything is
  written.
\<close>

theorem write_audio_file_name_error:
  "add_file_format_to_filename ''out.flac'' ''flac'' = ''out.flacflac'' \<and>
   write_audio_file Map.empty (Arr2 [[0::int]]) ''out.flac'' 48000 ''flac'' False =
     Inl NameError"
  by (simp add: add_file_format_appends write_audio_file_def ok_audio_formats_def
      lookup_global_def io_globals_def)

end
